theory Spec2Isabelle
  imports
    Complex_Main
    "HOL-Library.Sublist"
    "HOL-Library.Char_ord"
    "HOL-Library.List_Lexorder"
    "HOL-Library.Word"
begin

section \<open>Text primitives of the interpreter\<close>

text \<open>
  Python text is modelled as \<^typ>\<open>string\<close>: a list of characters whose codes range over
  0..255 (the Latin-1 part of Unicode). The operations below are the ones
  \<^verbatim>\<open>pyjail.py\<close> calls on \<^verbatim>\<open>str\<close>, restricted to that range.
\<close>

definition py_lower_char :: "char \<Rightarrow> char" where
  "py_lower_char c =
     (let n = (of_char c :: nat)
      in if (65 \<le> n \<and> n \<le> 90) \<or> (192 \<le> n \<and> n \<le> 222 \<and> n \<noteq> 215)
         then char_of (n + 32) else c)"

definition py_lower :: "string \<Rightarrow> string" where
  "py_lower s = map py_lower_char s"

text \<open>\<^verbatim>\<open>needle in hay\<close> on two strings.\<close>

fun py_in :: "'a list \<Rightarrow> 'a list \<Rightarrow> bool" where
  "py_in needle [] = (needle = [])"
| "py_in needle (h # hs) = (prefix needle (h # hs) \<or> py_in needle hs)"

definition CR :: char where "CR = CHR 0x0D"
definition LF :: char where "LF = CHR 0x0A"

text \<open>\<^verbatim>\<open>code.replace("\r\n", "\n")\<close>: leftmost, non-overlapping.\<close>

fun replace_crlf :: "string \<Rightarrow> string" where
  "replace_crlf (c # d # rest) =
     (if c = CR \<and> d = LF then LF # replace_crlf rest else c # replace_crlf (d # rest))"
| "replace_crlf [c] = [c]"
| "replace_crlf [] = []"

definition py_isspace :: "char \<Rightarrow> bool" where
  "py_isspace c =
     (let n = (of_char c :: nat)
      in (9 \<le> n \<and> n \<le> 13) \<or> (28 \<le> n \<and> n \<le> 32) \<or> n = 133 \<or> n = 160)"

definition py_rstrip :: "string \<Rightarrow> string" where
  "py_rstrip s = rev (dropWhile py_isspace (rev s))"

definition py_strip :: "string \<Rightarrow> string" where
  "py_strip s = dropWhile py_isspace (py_rstrip s)"

section \<open>Capability filter\<close>

definition DEFAULT_BANNED_KEYWORDS :: "string list" where
  "DEFAULT_BANNED_KEYWORDS =
     [''import'', ''from'', ''__import__'', ''eval'', ''exec('', ''open('', ''compile'',
      ''globals'', ''locals'', ''vars'', ''sys'', ''os'', ''subprocess'', ''builtins'',
      ''__class__'', ''__subclasses__'', ''inspect'', ''mmap'', ''socket'', ''thread'',
      ''multiprocessing'', ''signal'', ''ctypes'', ''resource'', ''memoryview'', ''setattr'',
      ''getattr('', ''delattr'', ''lambda *'', ''lambda **'', ''input('']"

text \<open>
  \<^verbatim>\<open>PythonJail.__init__\<close>, the line
  \<^verbatim>\<open>self.banned_keywords = tuple(sorted(set(DEFAULT_BANNED_KEYWORDS + provided_keywords)))\<close>.
  The argument is the operator-supplied sequence (empty when none was given).
\<close>

definition init_banned_keywords :: "string list \<Rightarrow> string list" where
  "init_banned_keywords provided = sort (remdups (DEFAULT_BANNED_KEYWORDS @ provided))"

text \<open>\<^verbatim>\<open>PythonJail.check_banned_keywords\<close>; the first argument is \<^verbatim>\<open>self.banned_keywords\<close>.\<close>

fun scan_keywords :: "string \<Rightarrow> string list \<Rightarrow> string list \<Rightarrow> string list" where
  "scan_keywords normalized [] matches = matches"
| "scan_keywords normalized (keyword # rest) matches =
     scan_keywords normalized rest
       (if py_in (py_lower keyword) normalized then matches @ [keyword] else matches)"

definition check_banned_keywords :: "string list \<Rightarrow> string \<Rightarrow> string list" where
  "check_banned_keywords banned_keywords code =
     (let normalized = py_lower code in scan_keywords normalized banned_keywords [])"

section \<open>Values, exceptions and the world outside the repository\<close>

type_synonym byte = "8 word"

text \<open>
  The objects sandboxed code can hand to the escalation hook. \<open>PySeq\<close> stands for any
  finite iterable that is neither text nor bytes, given by the elements it yields.
\<close>

datatype pyval =
    PyNone
  | PyBool bool
  | PyInt int
  | PyStr string
  | PyBytes "byte list"
  | PySeq "pyval list"

text \<open>
  Exception classes, with the part of Python's class hierarchy the handlers of the engine
  depend on. \<open>Sub p n\<close> is a proper subclass of \<open>p\<close> whose \<^verbatim>\<open>__name__\<close> is \<open>n\<close>:
  \<open>Sub Exception ''ZeroDivisionError''\<close>, \<open>Sub BaseException ''KeyboardInterrupt''\<close>, and
  the guard's own \<open>Sub JailTimeout ''JailTimeout''\<close>.
\<close>

datatype exc_class =
    BaseException
  | Exception
  | SyntaxError
  | NameError
  | TypeError
  | ValueError
  | JailTimeout
  | JailViolationClass
  | Sub exc_class string

text \<open>An exception object: its class and \<^verbatim>\<open>str(exc)\<close>.\<close>

datatype pyexc = PyExc exc_class string

fun exc_cls :: "pyexc \<Rightarrow> exc_class" where
  "exc_cls (PyExc c m) = c"



text \<open>\<^verbatim>\<open>issubclass(c, t)\<close>, which decides whether \<^verbatim>\<open>except t\<close> catches an instance of \<open>c\<close>.\<close>

fun is_subclass :: "exc_class \<Rightarrow> exc_class \<Rightarrow> bool" where
  "is_subclass (Sub p n) t = (Sub p n = t \<or> is_subclass p t)"
| "is_subclass BaseException t = (t = BaseException)"
| "is_subclass Exception t = (t = Exception \<or> t = BaseException)"
| "is_subclass c t = (c = t \<or> t = Exception \<or> t = BaseException)"

text \<open>
  What the compiled snippet does when \<^verbatim>\<open>exec\<close> runs it, as far as the engine can observe:
  text written to the redirected streams, calls of the escalation hook (the continuation
  receives what the call returned or raised, so the snippet may catch a rejection), the
  moment the watchdog timer fires, and how the run ends.
\<close>

datatype prog =
    Finish
  | Raise pyexc
  | Print string prog
  | PrintErr string prog
  | CallHook pyval "string option" "pyexc + string \<Rightarrow> prog"
  | TimerFires prog

datatype enc_result = Encoded "byte list" | EncLookupError | EncError pyexc

text \<open>What one run of the worker process did: \<^verbatim>\<open>Popen\<close> followed by \<^verbatim>\<open>communicate\<close>.\<close>

datatype proc_outcome =
    Exited int "byte list" "byte list"
  | TimedOut "int option" "byte list" "byte list"
  | SpawnNotFound string
  | SpawnFailed string

text \<open>
  Everything the engine obtains from Python's library and the operating system, none of
  which is code of the repository, is a field of the world.
\<close>

record world =
  str_encode :: "string \<Rightarrow> string \<Rightarrow> enc_result"
  int_builtin :: "pyval \<Rightarrow> pyexc + int"
  compile_exec :: "string \<Rightarrow> pyexc + prog"
  repr_str :: "string \<Rightarrow> string"
  tw_shorten :: "string \<Rightarrow> string"
  format_3f :: "real \<Rightarrow> string"
  decode_utf8 :: "byte list \<Rightarrow> string"
  encode_utf8 :: "string \<Rightarrow> byte list"
  binary_exists :: bool
  worker_run :: "nat \<Rightarrow> byte list \<Rightarrow> proc_outcome"
  worker_duration :: "nat \<Rightarrow> real"
  call_duration :: real
  catalog_lines :: "string list option"
  random_index :: nat
  caller_thread :: nat
  set_async_exc :: "(nat \<Rightarrow> nat) option"
  timestamp :: "nat \<Rightarrow> string"
  log_writable :: bool
  dir_listable :: bool
  dir_writable :: bool

section \<open>Decimal text\<close>

definition digit_char :: "nat \<Rightarrow> char" where
  "digit_char d = char_of (48 + d)"

function str_nat :: "nat \<Rightarrow> string" where
  "str_nat n = (if n < 10 then [digit_char n] else str_nat (n div 10) @ [digit_char (n mod 10)])"
  by pat_completeness auto
termination
  by (relation "measure id") auto

declare str_nat.simps [simp del]



section \<open>Timeout guard\<close>

datatype timer_obj = Timer real

record TimeoutGuard =
  seconds :: real
  label :: string
  enabled :: bool
  expired :: bool
  timer :: "timer_obj option"
  target_thread_id :: "nat option"

text \<open>The dataclass constructor followed by \<^verbatim>\<open>__post_init__\<close>.\<close>

definition new_guard :: "real \<Rightarrow> string \<Rightarrow> TimeoutGuard" where
  "new_guard secs lbl =
     \<lparr>seconds = secs, label = lbl, enabled = (secs > 0), expired = False,
      timer = None, target_thread_id = None\<rparr>"

text \<open>\<^verbatim>\<open>__enter__\<close>; the second argument is \<^verbatim>\<open>threading.get_ident()\<close>.\<close>

definition guard_enter :: "TimeoutGuard \<Rightarrow> nat \<Rightarrow> TimeoutGuard" where
  "guard_enter g tid =
     (if \<not> enabled g then g
      else g\<lparr>expired := False, target_thread_id := Some tid, timer := Some (Timer (seconds g))\<rparr>)"

text \<open>An instance of the class \<^verbatim>\<open>_get_timeout_exception_type\<close> builds.\<close>

definition timeout_exception :: "world \<Rightarrow> TimeoutGuard \<Rightarrow> pyexc" where
  "timeout_exception w g =
     PyExc (Sub JailTimeout ''JailTimeout'') (''time budget exceeded for '' @ repr_str w (label g))"

text \<open>
  \<^verbatim>\<open>_raise_in_target_thread\<close> runs on the timer's thread: either the exception is planted
  in the target thread, or something is raised on the timer's thread itself.
\<close>

datatype inject_result = Injected | RaisedInTimerThread pyexc

definition raise_in_target_thread :: "world \<Rightarrow> TimeoutGuard \<Rightarrow> inject_result" where
  "raise_in_target_thread w g =
     (case target_thread_id g of
        None \<Rightarrow> RaisedInTimerThread (timeout_exception w g)
      | Some thread_id \<Rightarrow>
          (case set_async_exc w of
             None \<Rightarrow> RaisedInTimerThread (timeout_exception w g)
           | Some api \<Rightarrow>
               (let result = api thread_id
                in if result = 0 then RaisedInTimerThread (timeout_exception w g)
                   else if result > 1 then
                     RaisedInTimerThread
                       (PyExc (Sub Exception ''RuntimeError'')
                          ''PyThreadState_SetAsyncExc affected multiple threads'')
                   else Injected)))"

definition timeout_triggered :: "world \<Rightarrow> TimeoutGuard \<Rightarrow> TimeoutGuard \<times> inject_result option" where
  "timeout_triggered w g =
     (if \<not> enabled g \<or> expired g then (g, None)
      else
        (let g' = g\<lparr>expired := True\<rparr>
         in (g', Some (case raise_in_target_thread w g' of
                         Injected \<Rightarrow> Injected
                       | RaisedInTimerThread e \<Rightarrow>
                           (if is_subclass (exc_cls e) JailTimeout then RaisedInTimerThread e
                            else RaisedInTimerThread (timeout_exception w g'))))))"

text \<open>
  \<^verbatim>\<open>__exit__\<close>. The argument is the exception with which the block is left (\<open>None\<close> when
  it ran off its end); the result is the exception that leaves the \<^verbatim>\<open>with\<close> statement.
  Both \<^verbatim>\<open>return False\<close> and \<^verbatim>\<open>return None\<close> let the block's exception through.
\<close>

definition guard_exit :: "world \<Rightarrow> TimeoutGuard \<Rightarrow> pyexc option \<Rightarrow> TimeoutGuard \<times> pyexc option" where
  "guard_exit w g exc =
     (if \<not> enabled g then (g, exc)
      else
        (let g' = g\<lparr>timer := None, target_thread_id := None\<rparr>
         in if expired g' \<and> exc = None then (g', Some (timeout_exception w g'))
            else (g', exc)))"

section \<open>Escalation payload normalizer and hook\<close>

definition VM_PAYLOAD_LIMIT :: nat where
  "VM_PAYLOAD_LIMIT = 4096"

text \<open>\<^verbatim>\<open>int(item)\<close>: integers and booleans are integers already; the rest is Python's.\<close>

definition py_int :: "world \<Rightarrow> pyval \<Rightarrow> pyexc + int" where
  "py_int w item =
     (case item of
        PyInt n \<Rightarrow> Inr n
      | PyBool b \<Rightarrow> Inr (if b then 1 else 0)
      | _ \<Rightarrow> int_builtin w item)"

text \<open>The loop over the iterator in \<^verbatim>\<open>_normalise_vm_payload\<close>.\<close>

fun fill_buffer :: "world \<Rightarrow> pyval list \<Rightarrow> byte list \<Rightarrow> pyexc + byte list" where
  "fill_buffer w [] buffer = Inr buffer"
| "fill_buffer w (item # rest) buffer =
     (case py_int w item of
        Inl exc \<Rightarrow>
          (if is_subclass (exc_cls exc) TypeError \<or> is_subclass (exc_cls exc) ValueError
           then Inl (PyExc ValueError ''Iterable payload elements must be integers'')
           else Inl exc)
      | Inr v \<Rightarrow>
          (if \<not> (0 \<le> v \<and> v \<le> 0xFF)
           then Inl (PyExc ValueError ''Iterable payload values must be within 0-255'')
           else fill_buffer w rest (buffer @ [word_of_int v])))"

definition check_payload_size :: "byte list \<Rightarrow> pyexc + byte list" where
  "check_payload_size data =
     (if data = [] then
        Inl (PyExc ValueError
          ''vm_escape payload must not be empty (hint: ever tried fuzzing directories?)'')
      else if length data > VM_PAYLOAD_LIMIT then
        Inl (PyExc ValueError (''vm_escape payload exceeds '' @ str_nat VM_PAYLOAD_LIMIT @ '' bytes''))
      else Inr data)"

definition normalise_vm_payload :: "world \<Rightarrow> pyval \<Rightarrow> string \<Rightarrow> pyexc + byte list" where
  "normalise_vm_payload w payload encoding =
     (case payload of
        PyStr text \<Rightarrow>
          (case str_encode w encoding text of
             Encoded data \<Rightarrow> check_payload_size data
           | EncLookupError \<Rightarrow>
               Inl (PyExc ValueError (''Unsupported encoding '' @ repr_str w encoding))
           | EncError exc \<Rightarrow> Inl exc)
      | PyBytes data \<Rightarrow> check_payload_size data
      | PySeq items \<Rightarrow>
          (case fill_buffer w items [] of
             Inl exc \<Rightarrow> Inl exc
           | Inr data \<Rightarrow> check_payload_size data)
      | _ \<Rightarrow> Inl (PyExc TypeError ''vm_escape expects str, bytes, or iterable of integers''))"

text \<open>
  The closure \<^verbatim>\<open>vm_escape(payload, *, encoding="latin-1")\<close>; the queue it closes over is
  passed in and returned. \<open>None\<close> for the encoding is a call without the keyword.
\<close>

definition encoding_or_default :: "string option \<Rightarrow> string" where
  "encoding_or_default encoding = (case encoding of None \<Rightarrow> ''latin-1'' | Some e \<Rightarrow> e)"

definition vm_escape ::
  "world \<Rightarrow> pyval \<Rightarrow> string option \<Rightarrow> byte list list \<Rightarrow> pyexc + (string \<times> byte list list)" where
  "vm_escape w payload encoding vm_queue =
     (case normalise_vm_payload w payload (encoding_or_default encoding) of
        Inl exc \<Rightarrow> Inl exc
      | Inr data \<Rightarrow>
          Inr (''tiny_vmmgr payload queued ('' @ str_nat (length data) @ '' bytes).'',
               vm_queue @ [data]))"

section \<open>Execution environment\<close>

datatype binding =
    Builtin string
  | PyjailHelp
  | PyjailDir
  | Hint
  | VmEscape
  | StrConst string
  | DictOf "(string \<times> binding) list"
  | Locker "(string \<times> binding) list"

definition SAFE_BUILTINS :: "(string \<times> binding) list" where
  "SAFE_BUILTINS =
     map (\<lambda>n. (n, Builtin n))
       [''abs'', ''all'', ''any'', ''bool'', ''chr'', ''divmod'', ''enumerate'', ''filter'',
        ''float'', ''format'', ''hash'', ''hex'', ''int'', ''isinstance'', ''issubclass'',
        ''iter'', ''len'', ''list'', ''map'', ''max'', ''min'', ''next'', ''oct'', ''ord'',
        ''pow'', ''print'', ''range'', ''repr'', ''reversed'', ''round'', ''sorted'', ''str'',
        ''sum'', ''tuple'', ''zip'']
     @ [(''help'', PyjailHelp), (''dir'', PyjailDir)]"

text \<open>\<^verbatim>\<open>_pyjail_dir\<close>: the decoy list a \<^verbatim>\<open>dir()\<close> call inside the sandbox returns.\<close>

definition pyjail_dir :: "string list" where
  "pyjail_dir = [''escape'', ''evade'', ''legacy_hook (removed or changed, probably)'']"

text \<open>\<^verbatim>\<open>_build_exec_environment\<close>: the globals dictionary, in insertion order.\<close>

definition build_exec_environment :: "(string \<times> binding) list" where
  "build_exec_environment =
     (let safe_globals =
            [(''__builtins__'', DictOf SAFE_BUILTINS),
             (''__name__'', StrConst ''__isol8r_pyjail__''),
             (''__doc__'', StrConst ''PythonJail user namespace. Abandon hope, ye who import.''),
             (''hint'', Hint),
             (''vm_escape'', VmEscape)]
      in safe_globals @ [(''__globals__'', Locker safe_globals)])"

text \<open>
  How \<^verbatim>\<open>exec(compiled, exec_globals, exec_locals)\<close> resolves a global name the snippet has
  not bound itself: the globals, then the dictionary under \<^verbatim>\<open>__builtins__\<close>; \<open>None\<close> is
  a \<^verbatim>\<open>NameError\<close>.
\<close>

definition resolve_name :: "(string \<times> binding) list \<Rightarrow> string \<Rightarrow> binding option" where
  "resolve_name env name =
     (case map_of env name of
        Some b \<Rightarrow> Some b
      | None \<Rightarrow>
          (case map_of env ''__builtins__'' of
             Some (DictOf d) \<Rightarrow> map_of d name
           | _ \<Rightarrow> None))"

section \<open>The jail: configuration, state, log and decoy artifacts\<close>

text \<open>
  The configuration \<^verbatim>\<open>__init__\<close> stores. \<open>project_root\<close> is the root directory as text,
  without a trailing separator.
\<close>

record PythonJail =
  project_root :: string
  timeout_seconds :: real
  banned_keywords :: "string list"

definition DEFAULT_TIMEOUT :: real where
  "DEFAULT_TIMEOUT = 5 / 2"



datatype fs_entry = RegularFile string | Directory

datatype log_level = BAIT | WARN | INFO

fun level_text :: "log_level \<Rightarrow> string" where
  "level_text BAIT = ''BAIT''"
| "level_text WARN = ''WARN''"
| "level_text INFO = ''INFO''"

text \<open>
  What a call can change and a later call can see: the bait log (its lines), the decoy
  directory (entries by name), the attributes \<^verbatim>\<open>fake_flag_path\<close>,
  \<^verbatim>\<open>_log_error_reported\<close> and \<^verbatim>\<open>_fake_flag_error_reported\<close> of the jail, and the
  payloads handed to \<^verbatim>\<open>subprocess.Popen\<close> so far.
\<close>

record jail_state =
  bait_log :: "string list"
  fake_flag_dir :: "(string \<times> fs_entry) list"
  fake_flag_path :: string
  log_error_reported :: bool
  fake_flag_error_reported :: bool
  popen_calls :: "byte list list"

text \<open>\<^verbatim>\<open>log_attempt\<close>; an \<^verbatim>\<open>OSError\<close> on the log file is swallowed.\<close>

definition log_attempt :: "world \<Rightarrow> log_level \<Rightarrow> string \<Rightarrow> jail_state \<Rightarrow> jail_state" where
  "log_attempt w event_type message st =
     (let line = ''['' @ level_text event_type @ ''] '' @ py_strip message @ '' at ''
                 @ timestamp w (length (bait_log st))
      in if log_writable w then st\<lparr>bait_log := bait_log st @ [line]\<rparr>
         else st\<lparr>log_error_reported := True\<rparr>)"

definition FALLBACK_FLAG :: string where
  "FALLBACK_FLAG = ''flag{stop_using_imports_bro}''"

text \<open>
  \<^verbatim>\<open>_choose_random_fake_flag\<close>; \<open>catalog_lines\<close> is \<^verbatim>\<open>read_text().splitlines()\<close>, and
  \<open>None\<close> when reading raised \<^verbatim>\<open>OSError\<close>.
\<close>

definition choose_random_fake_flag :: "world \<Rightarrow> jail_state \<Rightarrow> jail_state \<times> string" where
  "choose_random_fake_flag w st =
     (case catalog_lines w of
        None \<Rightarrow> (st\<lparr>fake_flag_error_reported := True\<rparr>, FALLBACK_FLAG)
      | Some lines \<Rightarrow>
          (let candidates = filter (\<lambda>l. l \<noteq> []) (map py_strip lines)
           in if candidates = [] then (st\<lparr>fake_flag_error_reported := True\<rparr>, FALLBACK_FLAG)
              else (st, candidates ! (random_index w mod length candidates))))"

text \<open>
  \<^verbatim>\<open>_FAKE_FLAG_NAME_PATTERN.match(name)\<close> for the pattern
  \<^verbatim>\<open>fake[-_]?flag[-_]?(\d+)\.txt$\<close> with \<^verbatim>\<open>re.IGNORECASE\<close>, followed by \<^verbatim>\<open>int\<close> of the
  group: the number, or \<open>None\<close> when the name does not match.
\<close>

fun match_lit :: "string \<Rightarrow> string \<Rightarrow> string option" where
  "match_lit [] s = Some s"
| "match_lit (p # ps) [] = None"
| "match_lit (p # ps) (c # cs) = (if py_lower_char c = p then match_lit ps cs else None)"

definition opt_sep :: "string \<Rightarrow> string" where
  "opt_sep s =
     (case s of
        [] \<Rightarrow> []
      | c # cs \<Rightarrow> if c = CHR ''-'' \<or> c = CHR ''_'' then cs else s)"

definition is_digit :: "char \<Rightarrow> bool" where
  "is_digit c = (48 \<le> (of_char c :: nat) \<and> (of_char c :: nat) \<le> 57)"

definition digits_value :: "string \<Rightarrow> nat" where
  "digits_value ds = foldl (\<lambda>acc c. 10 * acc + ((of_char c :: nat) - 48)) 0 ds"

definition fake_flag_number :: "string \<Rightarrow> nat option" where
  "fake_flag_number name =
     (case match_lit ''fake'' name of
        None \<Rightarrow> None
      | Some s1 \<Rightarrow>
          (case match_lit ''flag'' (opt_sep s1) of
             None \<Rightarrow> None
           | Some s2 \<Rightarrow>
               (let s3 = opt_sep s2;
                    ds = takeWhile is_digit s3;
                    rest = dropWhile is_digit s3
                in if ds = [] then None
                   else (case match_lit ''.txt'' rest of
                           None \<Rightarrow> None
                         | Some tail \<Rightarrow>
                             if tail = [] \<or> tail = [LF] then Some (digits_value ds) else None))))"

text \<open>The loop of \<^verbatim>\<open>_next_fake_flag_path\<close> over the directory entries.\<close>

fun highest_flag_number :: "(string \<times> fs_entry) list \<Rightarrow> nat \<Rightarrow> nat" where
  "highest_flag_number [] highest_number = highest_number"
| "highest_flag_number ((name, RegularFile content) # entries) highest_number =
     highest_flag_number entries
       (case fake_flag_number name of
          None \<Rightarrow> highest_number
        | Some number \<Rightarrow> if number > highest_number then number else highest_number)"
| "highest_flag_number ((name, Directory) # entries) highest_number =
     highest_flag_number entries highest_number"

definition flag_file_name :: "nat \<Rightarrow> string" where
  "flag_file_name next_index = ''fake-flag'' @ str_nat next_index @ ''.txt''"

text \<open>\<^verbatim>\<open>_next_fake_flag_path\<close>: the name of the next file inside the decoy directory.\<close>

definition next_fake_flag_path :: "world \<Rightarrow> jail_state \<Rightarrow> jail_state \<times> string" where
  "next_fake_flag_path w st =
     (if \<not> dir_listable w then (st\<lparr>fake_flag_error_reported := True\<rparr>, ''fake-flag2.txt'')
      else (st, flag_file_name (highest_flag_number (fake_flag_dir st) 1 + 1)))"

text \<open>\<^verbatim>\<open>Path.write_text\<close> into the directory: \<open>None\<close> is an \<^verbatim>\<open>OSError\<close>.\<close>

definition write_text ::
  "world \<Rightarrow> (string \<times> fs_entry) list \<Rightarrow> string \<Rightarrow> string \<Rightarrow> (string \<times> fs_entry) list option" where
  "write_text w dir name payload =
     (if \<not> dir_writable w then None
      else (case map_of dir name of
              Some Directory \<Rightarrow> None
            | Some (RegularFile old) \<Rightarrow>
                Some (map (\<lambda>(n, e). if n = name then (n, RegularFile payload) else (n, e)) dir)
            | None \<Rightarrow> Some (dir @ [(name, RegularFile payload)])))"

definition drop_fake_flag :: "world \<Rightarrow> jail_state \<Rightarrow> jail_state" where
  "drop_fake_flag w st =
     (let (st1, payload) = choose_random_fake_flag w st;
          (st2, target_path) = next_fake_flag_path w st1
      in case write_text w (fake_flag_dir st2) target_path payload of
           Some dir' \<Rightarrow> st2\<lparr>fake_flag_dir := dir', fake_flag_path := target_path\<rparr>
         | None \<Rightarrow> st2\<lparr>fake_flag_error_reported := True\<rparr>)"

section \<open>Process harness\<close>






section \<open>Result aggregation and \<^verbatim>\<open>execute_code\<close>\<close>







record exec_state =
  stdout_capture :: string
  stderr_capture :: string
  vm_queue :: "byte list list"
  guard :: TimeoutGuard

text \<open>
  \<^verbatim>\<open>exec(compiled, exec_globals, exec_locals)\<close> inside the two redirections and the
  guard: the streams, the queue behind the hook and the guard change as the snippet goes;
  the result is the exception with which the snippet ends, if any.
\<close>

primrec run_prog :: "world \<Rightarrow> prog \<Rightarrow> exec_state \<Rightarrow> exec_state \<times> pyexc option" where
  "run_prog w Finish = (\<lambda>s. (s, None))"
| "run_prog w (Raise exc) = (\<lambda>s. (s, Some exc))"
| "run_prog w (Print text p) = (\<lambda>s. run_prog w p (s\<lparr>stdout_capture := stdout_capture s @ text\<rparr>))"
| "run_prog w (PrintErr text p) =
     (\<lambda>s. run_prog w p (s\<lparr>stderr_capture := stderr_capture s @ text\<rparr>))"
| "run_prog w (CallHook payload encoding k) =
     (\<lambda>s. case vm_escape w payload encoding (vm_queue s) of
             Inl exc \<Rightarrow> run_prog w (k (Inl exc)) s
           | Inr (ack, q) \<Rightarrow> run_prog w (k (Inr ack)) (s\<lparr>vm_queue := q\<rparr>))"
| "run_prog w (TimerFires p) =
     (\<lambda>s. run_prog w p (s\<lparr>guard := fst (timeout_triggered w (guard s))\<rparr>))"




definition sanitize :: "string \<Rightarrow> string" where
  "sanitize code = py_rstrip (replace_crlf code)"










section \<open>A world for evaluation\<close>

text \<open>
  A concrete world on which the definitions can be run. Its fields answer as CPython does
  on the inputs used below and nowhere claim more: the codec registry knows Latin-1 only,
  \<^verbatim>\<open>int\<close> converts text made of at most nine decimal digits, \<^verbatim>\<open>repr\<close> quotes text that
  needs no escape, and the compiler knows five snippets. The worker binary is absent.
\<close>

definition QUOTE :: char where "QUOTE = CHR 0x27"

definition zero_division :: pyexc where
  "zero_division =
     PyExc (Sub (Sub Exception ''ArithmeticError'') ''ZeroDivisionError'') ''division by zero''"

definition propagate_or :: "prog \<Rightarrow> pyexc + string \<Rightarrow> prog" where
  "propagate_or p r = (case r of Inl exc \<Rightarrow> Raise exc | Inr ack \<Rightarrow> p)"

definition sample_compile :: "string \<Rightarrow> pyexc + prog" where
  "sample_compile code =
     (if code = ''print('hi')'' then Inr (Print (''hi'' @ [LF]) Finish)
      else if code = ''1/0'' then Inr (Raise zero_division)
      else if code = ''flag = 1'' then Inr Finish
      else if code = ''vm_escape(b'x')'' then
        Inr (CallHook (PyBytes [0x78]) None (propagate_or Finish))
      else if code = ''vm_escape(b'x'); 1/0'' then
        Inr (CallHook (PyBytes [0x78]) None (propagate_or (Raise zero_division)))
      else Inl (PyExc SyntaxError ''invalid syntax (<pyjail>, line 1)''))"

definition sample_world :: world where
  "sample_world =
     \<lparr>str_encode =
        (\<lambda>encoding text.
           if encoding = ''latin-1'' then Encoded (map (\<lambda>c. word_of_nat (of_char c)) text)
           else EncLookupError),
      int_builtin =
        (\<lambda>v. case v of
               PyStr t \<Rightarrow>
                 if t \<noteq> [] \<and> length t \<le> 9 \<and> list_all is_digit t then Inr (int (digits_value t))
                 else Inl (PyExc ValueError ''invalid literal for int() with base 10'')
             | _ \<Rightarrow> Inl (PyExc TypeError ''int() argument must be a string or a number'')),
      compile_exec = sample_compile,
      repr_str = (\<lambda>t. [QUOTE] @ t @ [QUOTE]),
      tw_shorten = (\<lambda>t. t),
      format_3f = (\<lambda>d. ''0.000''),
      decode_utf8 = map (\<lambda>b. char_of (unat b)),
      encode_utf8 = map (\<lambda>c. word_of_nat (of_char c)),
      binary_exists = False,
      worker_run = (\<lambda>i payload. SpawnNotFound ''tiny_vmmgr''),
      worker_duration = (\<lambda>i. 0),
      call_duration = 0,
      catalog_lines = None,
      random_index = 0,
      caller_thread = 1,
      set_async_exc = Some (\<lambda>tid. 1),
      timestamp = (\<lambda>n. ''2025-01-01 00:00:00''),
      log_writable = True,
      dir_listable = True,
      dir_writable = True\<rparr>"

text \<open>The guard of a call in this world after its timer has fired.\<close>

definition fired_guard :: TimeoutGuard where
  "fired_guard =
     fst (timeout_triggered sample_world
            (guard_enter (new_guard DEFAULT_TIMEOUT ''PythonJail exec'') (caller_thread sample_world)))"



section \<open>Properties of the capability filter\<close>

lemma py_in_iff_sublist: "py_in needle hay \<longleftrightarrow> sublist needle hay"
  by (induction hay) (auto simp: sublist_Cons_right)

lemma scan_keywords_filter:
  "scan_keywords n ks acc = acc @ filter (\<lambda>k. py_in (py_lower k) n) ks"
  by (induction ks arbitrary: acc) auto

lemma check_banned_keywords_filter:
  "check_banned_keywords ks code = filter (\<lambda>k. sublist (py_lower k) (py_lower code)) ks"
  by (simp add: check_banned_keywords_def scan_keywords_filter py_in_iff_sublist)

text \<open>
  Claim C8, read literally: the filter returns the configured terms that occur, as they
  are configured, in the lower-cased code. The code lower-cases the term as well before
  it looks for it, so an operator-supplied term with a capital letter is reported although
  the term itself does not occur in the lower-cased code: with the addition \<open>Foo\<close> and
  the code \<open>foo\<close>, the source returns \<open>Foo\<close>.
\<close>

theorem C8_counterexample:
  "check_banned_keywords (init_banned_keywords [''Foo'']) ''foo''
     \<noteq> filter (\<lambda>k. sublist k (py_lower ''foo'')) (init_banned_keywords [''Foo''])"
  unfolding py_in_iff_sublist[symmetric] by code_simp

text \<open>
  Claim C8, amended: for every code string \<^verbatim>\<open>check_banned_keywords\<close> returns exactly the
  subsequence of the configured sequence made of the terms whose lower-cased form occurs
  as a substring of the lower-cased code, in the configured order; the configured sequence
  is the sorted, duplicate-free union of the defaults and the operator's additions; the
  defaults are lower-case already, so for them the term and its lower-cased form agree.
\<close>

theorem C8_check_banned_keywords:
  "check_banned_keywords (init_banned_keywords provided) code
     = filter (\<lambda>k. sublist (py_lower k) (py_lower code)) (init_banned_keywords provided)
   \<and> init_banned_keywords provided
     = sorted_list_of_set (set DEFAULT_BANNED_KEYWORDS \<union> set provided)
   \<and> map py_lower DEFAULT_BANNED_KEYWORDS = DEFAULT_BANNED_KEYWORDS"
proof -
  have b: "init_banned_keywords provided
      = sorted_list_of_set (set DEFAULT_BANNED_KEYWORDS \<union> set provided)"
    unfolding init_banned_keywords_def set_append[symmetric]
    by (rule sorted_list_of_set_sort_remdups[symmetric])
  have c: "map py_lower DEFAULT_BANNED_KEYWORDS = DEFAULT_BANNED_KEYWORDS"
    by code_simp
  from check_banned_keywords_filter b c show ?thesis by blast
qed

section \<open>Properties of the timeout guard\<close>

lemma guard_exit_expired_None:
  "enabled g \<Longrightarrow> expired g \<Longrightarrow>
     guard_exit w g None
       = (g\<lparr>timer := None, target_thread_id := None\<rparr>, Some (timeout_exception w g))"
  by (simp add: guard_exit_def Let_def timeout_exception_def)

lemma guard_exit_Some: "snd (guard_exit w g (Some exc)) = Some exc"
  by (simp add: guard_exit_def Let_def)

lemma timeout_exception_is_timeout: "is_subclass (exc_cls (timeout_exception w g)) JailTimeout"
  by (simp add: timeout_exception_def)

lemma fired_guard_flags: "enabled fired_guard \<and> expired fired_guard"
  by (simp add: fired_guard_def timeout_triggered_def guard_enter_def new_guard_def
      DEFAULT_TIMEOUT_def Let_def)

text \<open>
  Claim C6, as stated: once the timer has fired, leaving the guarded region surfaces a
  timeout, also when the protected code raised some other exception. \<^verbatim>\<open>__exit__\<close> raises
  the timeout only under \<^verbatim>\<open>self._expired and exc_type is None\<close>: when the block is left
  with a \<^verbatim>\<open>ValueError\<close> after the timer fired, the \<^verbatim>\<open>ValueError\<close> is what leaves the
  \<^verbatim>\<open>with\<close> statement, and it is no timeout.
\<close>

theorem C6_counterexample:
  "enabled fired_guard \<and> expired fired_guard
   \<and> snd (guard_exit sample_world fired_guard (Some (PyExc ValueError ''boom'')))
       = Some (PyExc ValueError ''boom'')
   \<and> \<not> is_subclass (exc_cls (PyExc ValueError ''boom'')) JailTimeout"
  by (simp add: fired_guard_flags guard_exit_Some)

text \<open>
  Claim C6, amended: once the timer of an enabled guard has fired, leaving the guarded
  region after the protected code finished normally raises the guard's timeout exception,
  an instance of \<^verbatim>\<open>JailTimeout\<close>; leaving it with an exception lets that very exception
  through, whether it is the timeout or something else.
\<close>

theorem C6_guard_exit_after_timeout:
  assumes "enabled g" and "expired g"
  shows "snd (guard_exit w g None) = Some (timeout_exception w g)
         \<and> is_subclass (exc_cls (timeout_exception w g)) JailTimeout
         \<and> snd (guard_exit w g (Some exc)) = Some exc"
  using assms by (simp add: guard_exit_expired_None guard_exit_Some timeout_exception_is_timeout)

theorem C6_guard_exit_after_timeout_witness:
  "enabled fired_guard \<and> expired fired_guard
   \<and> snd (guard_exit sample_world fired_guard None)
       = Some (timeout_exception sample_world fired_guard)
   \<and> snd (guard_exit sample_world fired_guard (Some zero_division)) = Some zero_division"
  using C6_guard_exit_after_timeout [of fired_guard sample_world zero_division] fired_guard_flags
  by simp

section \<open>Properties of the execution environment and the hook\<close>

lemma resolve_vm_escape: "resolve_name build_exec_environment ''vm_escape'' = Some VmEscape"
  by code_simp

lemma str_nat_Suc_0: "str_nat (Suc 0) = ''1''"
  by code_simp

lemma sample_bytes_accepted:
  "normalise_vm_payload sample_world (PyBytes [0x78]) (encoding_or_default None) = Inr [0x78]"
  by (simp add: normalise_vm_payload_def check_payload_size_def VM_PAYLOAD_LIMIT_def)

text \<open>
  Claim C4, as stated: the namespace binds the hook to the name \<open>escape\<close>. In the
  namespace \<^verbatim>\<open>_build_exec_environment\<close> builds, \<open>escape\<close> is bound neither among the
  globals nor among the builtins, so a snippet calling it gets a \<^verbatim>\<open>NameError\<close>; the name
  only occurs in the decoy list of \<^verbatim>\<open>_pyjail_dir\<close>.
\<close>

theorem C4_counterexample:
  "resolve_name build_exec_environment ''escape'' = None"
  by code_simp

text \<open>
  Claim C4, amended: the namespace binds the hook to the name \<open>vm_escape\<close>, taking a
  payload and an optional keyword \<open>encoding\<close> that defaults to Latin-1. When the payload
  is accepted by the normalizer, the call appends the normalized bytes to the queue of
  this execution and returns the text \<open>tiny_vmmgr payload queued (N bytes).\<close> with the
  number of accepted bytes; in the running snippet the call changes nothing but that
  queue.
\<close>

theorem C4_vm_escape_hook:
  assumes "normalise_vm_payload w payload (encoding_or_default encoding) = Inr data"
  shows "resolve_name build_exec_environment ''vm_escape'' = Some VmEscape
    \<and> vm_escape w payload encoding q
        = Inr (''tiny_vmmgr payload queued ('' @ str_nat (length data) @ '' bytes).'', q @ [data])
    \<and> run_prog w (CallHook payload encoding k) s
        = run_prog w (k (Inr (''tiny_vmmgr payload queued ('' @ str_nat (length data) @ '' bytes).'')))
            (s\<lparr>vm_queue := vm_queue s @ [data]\<rparr>)"
  using assms by (simp add: resolve_vm_escape vm_escape_def)

theorem C4_vm_escape_hook_witness:
  "normalise_vm_payload sample_world (PyBytes [0x78]) (encoding_or_default None) = Inr [0x78]
   \<and> vm_escape sample_world (PyBytes [0x78]) None []
       = Inr (''tiny_vmmgr payload queued (1 bytes).'', [ [0x78] ])"
  using C4_vm_escape_hook [OF sample_bytes_accepted, of "[]"] sample_bytes_accepted
  by (simp add: str_nat_Suc_0)

section \<open>Properties of the payload normalizer\<close>

lemma fill_buffer_Inr:
  "fill_buffer w items buf = Inr data \<longleftrightarrow>
     (\<exists>bs. data = buf @ bs \<and>
        list_all2 (\<lambda>item b. \<exists>v. py_int w item = Inr v \<and> 0 \<le> v \<and> v \<le> 255 \<and> b = word_of_int v) items bs)"
proof (induction items arbitrary: buf)
  case Nil
  then show ?case by auto
next
  case (Cons item rest)
  show ?case
  proof (cases "py_int w item")
    case (Inl e)
    then show ?thesis by (auto simp: list_all2_Cons1)
  next
    case (Inr v)
    then show ?thesis
      by (auto simp: Cons.IH list_all2_Cons1)
  qed
qed

lemma check_payload_size_Inr:
  "check_payload_size d = Inr data \<longleftrightarrow> d = data \<and> data \<noteq> [] \<and> length data \<le> 4096"
  by (auto simp: check_payload_size_def VM_PAYLOAD_LIMIT_def)

lemma normalise_seq:
  "(normalise_vm_payload w (PySeq items) enc = Inr data) =
     (fill_buffer w items [] = Inr data \<and> data \<noteq> [] \<and> length data \<le> 4096)"
  by (cases "fill_buffer w items []")
     (auto simp: normalise_vm_payload_def check_payload_size_Inr)

lemma normalise_Inr:
  "(normalise_vm_payload w payload enc = Inr data) =
     (data \<noteq> [] \<and> length data \<le> 4096 \<and>
      (case payload of
         PyStr text \<Rightarrow> str_encode w enc text = Encoded data
       | PyBytes b \<Rightarrow> b = data
       | PySeq items \<Rightarrow>
           list_all2 (\<lambda>item b. \<exists>v. py_int w item = Inr v \<and> 0 \<le> v \<and> v \<le> 255 \<and> b = word_of_int v)
             items data
       | _ \<Rightarrow> False))"
proof (cases payload)
  case (PySeq items)
  then show ?thesis
    using fill_buffer_Inr [of w items "[]" data] by (auto simp: normalise_seq)
qed (auto simp: normalise_vm_payload_def check_payload_size_Inr split: enc_result.splits)

lemma normalise_unknown_encoding:
  "str_encode w enc text = EncLookupError \<Longrightarrow>
     normalise_vm_payload w (PyStr text) enc
       = Inl (PyExc ValueError (''Unsupported encoding '' @ repr_str w enc))"
  by (simp add: normalise_vm_payload_def)

lemma rejected_call:
  "normalise_vm_payload w payload (encoding_or_default encoding) = Inl exc \<Longrightarrow>
     vm_escape w payload encoding q = Inl exc
     \<and> run_prog w (CallHook payload encoding k) s = run_prog w (k (Inl exc)) s"
  by (simp add: vm_escape_def)

lemma sample_unknown: "str_encode sample_world (encoding_or_default (Some ''klingon'')) ''x'' = EncLookupError"
  by (simp add: sample_world_def encoding_or_default_def)

text \<open>
  Claim C7, as stated: an iterable payload fails if any element is not an integer. The
  loop converts every element with \<^verbatim>\<open>int(item)\<close> and rejects it only when that raises
  \<^verbatim>\<open>TypeError\<close> or \<^verbatim>\<open>ValueError\<close>, so an element that is no integer but that \<^verbatim>\<open>int\<close>
  converts is accepted: for the list holding the text \<open>7\<close>, \<^verbatim>\<open>int("7")\<close> is 7 and the
  normalizer returns the single byte 7.
\<close>

theorem C7_counterexample:
  "int_builtin sample_world (PyStr ''7'') = Inr 7
   \<and> normalise_vm_payload sample_world (PySeq [PyStr ''7'']) ''latin-1'' = Inr [7]"
  by (simp add: sample_world_def normalise_vm_payload_def py_int_def check_payload_size_def
      VM_PAYLOAD_LIMIT_def is_digit_def digits_value_def)

text \<open>
  Claim C7, amended: the normalizer returns a byte buffer exactly when the buffer is not
  empty, holds at most 4096 bytes, and is the encoding of a text payload under the given or
  default encoding, or a bytes payload itself, or, for any other iterable, the list of the
  values \<^verbatim>\<open>int\<close> gives for its elements, each within 0..255 (so an element fails when
  \<^verbatim>\<open>int\<close> cannot convert it or its value is out of range, not when it merely is no
  integer); any other object is rejected. An unrecognized encoding name is rejected with
  \<open>Unsupported encoding\<close>. On every rejection the hook call raises and the queue stays
  as it was.
\<close>

theorem C7_normalise_vm_payload:
  "((normalise_vm_payload w payload (encoding_or_default encoding) = Inr data) =
     (data \<noteq> [] \<and> length data \<le> 4096 \<and>
      (case payload of
         PyStr text \<Rightarrow> str_encode w (encoding_or_default encoding) text = Encoded data
       | PyBytes b \<Rightarrow> b = data
       | PySeq items \<Rightarrow>
           list_all2 (\<lambda>item b. \<exists>v. py_int w item = Inr v \<and> 0 \<le> v \<and> v \<le> 255 \<and> b = word_of_int v)
             items data
       | _ \<Rightarrow> False)))
   \<and> (str_encode w (encoding_or_default encoding) t = EncLookupError \<longrightarrow>
        normalise_vm_payload w (PyStr t) (encoding_or_default encoding)
          = Inl (PyExc ValueError (''Unsupported encoding '' @ repr_str w (encoding_or_default encoding))))
   \<and> (normalise_vm_payload w payload (encoding_or_default encoding) = Inl exc \<longrightarrow>
        vm_escape w payload encoding q = Inl exc
        \<and> run_prog w (CallHook payload encoding k) s = run_prog w (k (Inl exc)) s)"
  using normalise_Inr [of w payload "encoding_or_default encoding" data]
    normalise_unknown_encoding [of w "encoding_or_default encoding" t]
    rejected_call [of w payload encoding exc q k s]
  by blast

theorem C7_normalise_vm_payload_witness:
  "str_encode sample_world (encoding_or_default (Some ''klingon'')) ''x'' = EncLookupError
   \<and> normalise_vm_payload sample_world (PyStr ''x'') (encoding_or_default (Some ''klingon''))
       = Inl (PyExc ValueError (''Unsupported encoding '' @ repr_str sample_world ''klingon''))
   \<and> vm_escape sample_world (PyStr ''x'') (Some ''klingon'') [ [1] ]
       = Inl (PyExc ValueError (''Unsupported encoding '' @ repr_str sample_world ''klingon''))"
  using C7_normalise_vm_payload [of sample_world "PyStr ''x''" "Some ''klingon''" "[]" "''x''"
      "PyExc ValueError (''Unsupported encoding '' @ repr_str sample_world ''klingon'')" "[ [1] ]"]
    sample_unknown
  by (simp add: encoding_or_default_def)


section \<open>Properties of the process harness\<close>


lemma log_attempt_popen [simp]: "popen_calls (log_attempt w l m st) = popen_calls st"
  by (simp add: log_attempt_def Let_def)

lemma log_attempt_dir [simp]: "fake_flag_dir (log_attempt w l m st) = fake_flag_dir st"
  by (simp add: log_attempt_def Let_def)






section \<open>The paths through \<^verbatim>\<open>execute_code\<close>\<close>














section \<open>Evaluations in the sample world\<close>












section \<open>Claims about the engine as a whole\<close>






section \<open>Sanitizing, lower-casing and the text \<open>flag\<close>\<close>

lemma of_char_lt_256: "(of_char c :: nat) < 256"
proof -
  have "(of_char c :: nat) mod 256 < 256" by simp
  then show ?thesis by (simp only: of_char_mod_256)
qed

lemma of_char_py_lower_char:
  "(of_char (py_lower_char c) :: nat) =
     (if (65 \<le> (of_char c :: nat) \<and> (of_char c :: nat) \<le> 90)
         \<or> (192 \<le> (of_char c :: nat) \<and> (of_char c :: nat) \<le> 222 \<and> (of_char c :: nat) \<noteq> 215)
      then of_char c + 32 else of_char c)"
  by (auto simp: py_lower_char_def Let_def)

lemma py_lower_char_eq_iff:
  "(of_char d :: nat) < 65 \<Longrightarrow> py_lower_char c = d \<longleftrightarrow> c = d"
proof -
  assume d: "(of_char d :: nat) < 65"
  have "py_lower_char c = d \<longleftrightarrow> (of_char (py_lower_char c) :: nat) = of_char d" by simp
  also have "\<dots> \<longleftrightarrow> (of_char c :: nat) = of_char d"
    using d by (auto simp: of_char_py_lower_char)
  also have "\<dots> \<longleftrightarrow> c = d" by simp
  finally show ?thesis .
qed

lemma py_lower_char_CR [simp]: "py_lower_char c = CR \<longleftrightarrow> c = CR"
  by (rule py_lower_char_eq_iff) (simp add: CR_def)

lemma py_lower_char_LF [simp]: "py_lower_char c = LF \<longleftrightarrow> c = LF"
  by (rule py_lower_char_eq_iff) (simp add: LF_def)

lemma py_isspace_lower [simp]: "py_isspace (py_lower_char c) = py_isspace c"
  unfolding py_isspace_def Let_def of_char_py_lower_char by auto

lemma py_lower_replace_crlf: "py_lower (replace_crlf s) = replace_crlf (py_lower s)"
  by (induction s rule: replace_crlf.induct) (auto simp: py_lower_def)

lemma py_lower_rstrip: "py_lower (py_rstrip s) = py_rstrip (py_lower s)"
  by (simp add: py_lower_def py_rstrip_def rev_map dropWhile_map comp_def)

lemma py_lower_sanitize: "py_lower (sanitize s) = sanitize (py_lower s)"
  by (simp add: sanitize_def py_lower_rstrip py_lower_replace_crlf)








section \<open>Claims about the result\<close>




















section \<open>Decoy artifacts\<close>









lemma log_attempt_world [simp]:
  "log_attempt (w\<lparr>compile_exec := c\<rparr>) l m st = log_attempt w l m st"
  by (simp add: log_attempt_def)

lemma choose_world [simp]:
  "choose_random_fake_flag (w\<lparr>compile_exec := c\<rparr>) st = choose_random_fake_flag w st"
  by (cases "catalog_lines w") (simp_all add: choose_random_fake_flag_def Let_def)

lemma next_path_world [simp]:
  "next_fake_flag_path (w\<lparr>compile_exec := c\<rparr>) st = next_fake_flag_path w st"
  by (simp add: next_fake_flag_path_def)

lemma write_text_world [simp]:
  "write_text (w\<lparr>compile_exec := c\<rparr>) d n p = write_text w d n p"
  by (simp add: write_text_def)

lemma drop_fake_flag_world [simp]:
  "drop_fake_flag (w\<lparr>compile_exec := c\<rparr>) st = drop_fake_flag w st"
  by (simp add: drop_fake_flag_def)



lemma choose_popen [simp]: "popen_calls (fst (choose_random_fake_flag w st)) = popen_calls st"
  by (simp add: choose_random_fake_flag_def Let_def split: option.splits)

lemma drop_fake_flag_unfold:
  "drop_fake_flag w st =
     (let st1 = fst (choose_random_fake_flag w st);
          payload = snd (choose_random_fake_flag w st);
          st2 = fst (next_fake_flag_path w st1);
          target_path = snd (next_fake_flag_path w st1)
      in case write_text w (fake_flag_dir st2) target_path payload of
           Some dir' \<Rightarrow> st2\<lparr>fake_flag_dir := dir', fake_flag_path := target_path\<rparr>
         | None \<Rightarrow> st2\<lparr>fake_flag_error_reported := True\<rparr>)"
  by (simp add: drop_fake_flag_def Let_def case_prod_beta)

lemma next_path_fst [simp]:
  "fake_flag_dir (fst (next_fake_flag_path w st)) = fake_flag_dir st"
  "popen_calls (fst (next_fake_flag_path w st)) = popen_calls st"
  by (simp_all add: next_fake_flag_path_def)

lemma drop_fake_flag_popen [simp]: "popen_calls (drop_fake_flag w st) = popen_calls st"
  by (simp add: drop_fake_flag_unfold Let_def split: option.splits)








end
